theory Spec2Isabelle
  imports Complex_Main
begin

section \<open>JavaScript values\<close>

text \<open>
  A JavaScript number is modelled as a real number or one of the three special values.
  The rounding of double arithmetic and the sign of zero are not modelled: every zero is
  \<open>+0\<close>, so a positive number divided by zero is \<open>Infinity\<close>.
\<close>

datatype jsnum = NaN | NegInf | PosInf | Fin real

text \<open>The sign of a number that is not \<open>NaN\<close>: \<open>-1\<close>, \<open>0\<close> or \<open>1\<close>.\<close>

fun js_sign :: "jsnum \<Rightarrow> int" where
  "js_sign NaN = 0"
| "js_sign NegInf = - 1"
| "js_sign PosInf = 1"
| "js_sign (Fin x) = (if x < 0 then - 1 else if x = 0 then 0 else 1)"

definition js_signed_inf :: "int \<Rightarrow> jsnum" where
  "js_signed_inf s = (if s < 0 then NegInf else PosInf)"

text \<open>\<open>a < b\<close>: false as soon as one side is \<open>NaN\<close>.\<close>

fun js_lt :: "jsnum \<Rightarrow> jsnum \<Rightarrow> bool" where
  "js_lt NaN _ = False"
| "js_lt _ NaN = False"
| "js_lt NegInf NegInf = False"
| "js_lt NegInf _ = True"
| "js_lt PosInf _ = False"
| "js_lt (Fin x) NegInf = False"
| "js_lt (Fin x) PosInf = True"
| "js_lt (Fin x) (Fin y) = (x < y)"

definition js_gt :: "jsnum \<Rightarrow> jsnum \<Rightarrow> bool" where
  "js_gt a b = js_lt b a"

text \<open>\<open>a * b\<close>.\<close>

fun js_mul :: "jsnum \<Rightarrow> jsnum \<Rightarrow> jsnum" where
  "js_mul NaN _ = NaN"
| "js_mul _ NaN = NaN"
| "js_mul (Fin x) (Fin y) = Fin (x * y)"
| "js_mul a b =
     (if js_sign a = 0 \<or> js_sign b = 0 then NaN else js_signed_inf (js_sign a * js_sign b))"

text \<open>\<open>a / b\<close>: \<open>0 / 0\<close> and \<open>Infinity / Infinity\<close> are \<open>NaN\<close>.\<close>

fun js_div :: "jsnum \<Rightarrow> jsnum \<Rightarrow> jsnum" where
  "js_div NaN _ = NaN"
| "js_div _ NaN = NaN"
| "js_div (Fin x) (Fin y) =
     (if y = 0 then (if x = 0 then NaN else js_signed_inf (js_sign (Fin x)))
      else Fin (x / y))"
| "js_div (Fin x) _ = Fin 0"
| "js_div a (Fin y) = js_signed_inf (js_sign a * (if y < 0 then - 1 else 1))"
| "js_div _ _ = NaN"

text \<open>\<open>a + b\<close> and \<open>a - b\<close>.\<close>

fun js_add :: "jsnum \<Rightarrow> jsnum \<Rightarrow> jsnum" where
  "js_add NaN _ = NaN"
| "js_add _ NaN = NaN"
| "js_add (Fin x) (Fin y) = Fin (x + y)"
| "js_add (Fin x) b = b"
| "js_add a (Fin y) = a"
| "js_add a b = (if a = b then a else NaN)"

fun js_neg :: "jsnum \<Rightarrow> jsnum" where
  "js_neg NaN = NaN"
| "js_neg NegInf = PosInf"
| "js_neg PosInf = NegInf"
| "js_neg (Fin x) = Fin (- x)"

definition js_sub :: "jsnum \<Rightarrow> jsnum \<Rightarrow> jsnum" where
  "js_sub a b = js_add a (js_neg b)"

text \<open>\<open>Math.floor\<close> and \<open>Math.round\<close> (halves go up).\<close>

fun Math_floor :: "jsnum \<Rightarrow> jsnum" where
  "Math_floor (Fin x) = Fin (of_int \<lfloor>x\<rfloor>)"
| "Math_floor a = a"

fun Math_round :: "jsnum \<Rightarrow> jsnum" where
  "Math_round (Fin x) = Fin (of_int \<lfloor>x + 1 / 2\<rfloor>)"
| "Math_round a = a"

text \<open>
  The values a settings bag holds. \<open>truthy\<close> is the test of \<open>if (v)\<close> and of
  \<open>v || w\<close>; \<open>v === "s"\<close> is \<open>v = Str s\<close>.
\<close>

datatype jsval = Undefined | Null | Bool bool | Num jsnum | Str string

fun truthy :: "jsval \<Rightarrow> bool" where
  "truthy Undefined = False"
| "truthy Null = False"
| "truthy (Bool b) = b"
| "truthy (Num n) = (n \<noteq> NaN \<and> n \<noteq> Fin 0)"
| "truthy (Str s) = (s \<noteq> [])"

text \<open>
  The conversion to a number that \<open><\<close> and \<open>>\<close> apply to an operand. The conversion of
  a string is the library's \<open>StringToNumber\<close>, a parameter here.
\<close>

fun to_number :: "(string \<Rightarrow> jsnum) \<Rightarrow> jsval \<Rightarrow> jsnum" where
  "to_number sn Undefined = NaN"
| "to_number sn Null = Fin 0"
| "to_number sn (Bool b) = (if b then Fin 1 else Fin 0)"
| "to_number sn (Num n) = n"
| "to_number sn (Str s) = sn s"

section \<open>Axes and their tick arguments\<close>

text \<open>
  An argument of \<open>axis.ticks(...)\<close>: a number, a function (named by a handle) or
  \<open>undefined\<close>. In a comparison or a division a function and \<open>undefined\<close> convert to
  \<open>NaN\<close>.
\<close>

datatype tickarg = TNum jsnum | TFn string | TUndefined

fun tick_number :: "tickarg \<Rightarrow> jsnum" where
  "tick_number (TNum n) = n"
| "tick_number (TFn f) = NaN"
| "tick_number TUndefined = NaN"

text \<open>What \<open>axis.ticks()\<close> returns: the array of stored arguments, or a bare value.\<close>

datatype ticks_value = TicksArray "tickarg list" | TicksValue tickarg

text \<open>
  The formatter given to \<open>axis.tickFormat\<close>: the closure over \<open>formatValue\<close> with its
  column and \<open>compact\<close> flag, the empty string, or the percentage closure.
\<close>

record column =
  col_name :: string
  unit :: "string option"
  timezone :: "string option"

datatype tick_format =
    DefaultFormat
  | FormatValue "column option" bool
  | EmptyFormat
  | PercentFormat

record axis =
  ticks :: ticks_value
  tickFormat :: tick_format

text \<open>\<open>axis.ticks(a, ...)\<close> stores the array of its arguments, as d3's axis does.\<close>

definition axis_set_ticks :: "tickarg list \<Rightarrow> axis \<Rightarrow> axis" where
  "axis_set_ticks args a = a\<lparr>ticks := TicksArray args\<rparr>"

definition getNumTicks :: "axis \<Rightarrow> tickarg" where
  "getNumTicks a =
     (case ticks a of
        TicksArray xs \<Rightarrow> (case xs of [] \<Rightarrow> TUndefined | x # _ \<Rightarrow> x)
      | TicksValue v \<Rightarrow> v)"

definition MIN_PIXELS_PER_TICK :: jsnum where
  "MIN_PIXELS_PER_TICK = Fin 32"

definition adjustYAxisTicksIfNeeded :: "axis \<Rightarrow> jsnum \<Rightarrow> axis" where
  "adjustYAxisTicksIfNeeded a axisHeightPixels =
     (let numTicks = getNumTicks a
      in if js_lt (js_div axisHeightPixels (tick_number numTicks)) MIN_PIXELS_PER_TICK
         then axis_set_ticks [TNum (Math_floor (js_div axisHeightPixels MIN_PIXELS_PER_TICK))] a
         else a)"

definition MAX_VALUES_TO_MEASURE :: nat where
  "MAX_VALUES_TO_MEASURE = 100"

text \<open>
  The loop \<open>for (let value of values) totalLength += String(value).length\<close>, with the
  accumulator as an argument. \<open>String\<close> is the library's conversion of a value to a
  string, a parameter.
\<close>

fun totalLength_loop :: "('v \<Rightarrow> string) \<Rightarrow> nat \<Rightarrow> 'v list \<Rightarrow> nat" where
  "totalLength_loop String totalLength [] = totalLength"
| "totalLength_loop String totalLength (v # values) =
     totalLength_loop String (totalLength + length (String v)) values"

definition averageStringLengthOfValues :: "('v \<Rightarrow> string) \<Rightarrow> 'v list \<Rightarrow> jsnum" where
  "averageStringLengthOfValues String values0 =
     (let values = take MAX_VALUES_TO_MEASURE values0;
          totalLength = totalLength_loop String 0 values
      in Math_round (js_div (Fin (of_nat totalLength)) (Fin (of_nat (length values)))))"

definition APPROXIMATE_AVERAGE_CHAR_WIDTH_PIXELS :: jsnum where
  "APPROXIMATE_AVERAGE_CHAR_WIDTH_PIXELS = Fin 8"

definition adjustXAxisTicksIfNeeded ::
  "('v \<Rightarrow> string) \<Rightarrow> axis \<Rightarrow> jsnum \<Rightarrow> 'v list \<Rightarrow> axis" where
  "adjustXAxisTicksIfNeeded String a chartWidthPixels xValues =
     (let tickAverageStringLength = averageStringLengthOfValues String xValues;
          tickAverageWidthPixels =
            js_mul tickAverageStringLength APPROXIMATE_AVERAGE_CHAR_WIDTH_PIXELS;
          maxTicks = Math_floor (js_div chartWidthPixels tickAverageWidthPixels)
      in if js_gt (tick_number (getNumTicks a)) maxTicks
         then axis_set_ticks [TNum maxTicks] a
         else a)"

section \<open>Series, scales and the chart\<close>

record dataset =
  cols :: "column list"
  rows :: "jsval list list"

record single_series =
  data :: dataset

text \<open>\<open>cols[i]\<close>: \<open>undefined\<close> (here \<open>None\<close>) beyond the end of the array.\<close>

definition col_at :: "dataset \<Rightarrow> nat \<Rightarrow> column option" where
  "col_at d i = (if i < length (cols d) then Some (cols d ! i) else None)"

text \<open>
  An instant is a valid moment, given by its milliseconds since the epoch, which is what
  \<open>ms\<close> extracts from a moment or a date.
\<close>

type_synonym instant = real

text \<open>
  An interval descriptor \<open>{interval, count}\<close>; the one that
  \<open>computeTimeseriesTicksInterval\<close> returns also has a \<open>rangeFn\<close>.
\<close>

record tinterval =
  ti_interval :: string
  ti_count :: jsnum
  ti_rangeFn :: "string option"

text \<open>
  The d3 scales: \<open>d3.scale.pow().exponent(e)\<close>, \<open>d3.scale.log().base(Math.E)\<close>,
  \<open>d3.scale.linear()\<close>, each with its domain.
\<close>

datatype scale_kind = PowScale real | LogScaleE | LinearScale

record nscale =
  sc_kind :: scale_kind
  sc_domain :: "jsnum list"

definition d3_scale_pow_exponent :: "real \<Rightarrow> nscale" where
  "d3_scale_pow_exponent e = \<lparr>sc_kind = PowScale e, sc_domain = [Fin 0, Fin 1]\<rparr>"

definition d3_scale_log_base_E :: nscale where
  "d3_scale_log_base_E = \<lparr>sc_kind = LogScaleE, sc_domain = [Fin 1, Fin 10]\<rparr>"

definition d3_scale_linear :: nscale where
  "d3_scale_linear = \<lparr>sc_kind = LinearScale, sc_domain = [Fin 0, Fin 1]\<rparr>"

text \<open>
  The moment-timezone scale that \<open>applyChartTimeseriesXAxis\<close> builds: its timezone, the
  domain of the linear scale inside (in milliseconds) and the \<open>tickInterval\<close> variable
  that the closure \<open>s.ticks\<close> reads.
\<close>

record tscale =
  ts_tz :: "string option"
  ts_domain :: "instant \<times> instant"
  ts_tickInterval :: tinterval

datatype 'v xscale = TimeScale tscale | NumScale nscale | OrdinalScale "'v list"

text \<open>
  The three values given to \<open>chart.xUnits\<close>: the closure over \<open>dataInterval\<close>,
  \<open>dc.units.fp.precision(xInterval)\<close> and \<open>dc.units.ordinal\<close>.
\<close>

datatype xunits = TimeseriesUnits tinterval | PrecisionUnits jsnum | OrdinalUnits

record 'v chart =
  settings :: "string \<Rightarrow> jsval"
  width :: jsnum
  height :: jsnum
  xAxisLabel :: "(jsval \<times> jsnum) option"
  yAxisLabel :: "(jsval \<times> jsnum) option"
  rightYAxisLabel :: "(jsval \<times> jsnum) option"
  renderVerticalGridLines :: "jsval option"
  renderHorizontalGridLines :: "jsval option"
  xAxis :: axis
  yAxis :: axis
  rightYAxis :: axis
  x_scale :: "'v xscale option"
  xUnits :: "xunits option"
  y_scale :: "nscale option"
  rightY_scale :: "nscale option"
  elasticY :: "jsval option"

text \<open>
  The functions of other modules and libraries that the axis functions call. Each is
  taken to return normally.
\<close>

record 'v lib =
  String_of :: "'v \<Rightarrow> string"
  StringToNumber :: "string \<Rightarrow> jsnum"
  datasetContainsNoResults :: "dataset \<Rightarrow> bool"
  getFriendlyName :: "column option \<Rightarrow> string"
  computeTimeseriesTicksInterval :: "instant \<times> instant \<Rightarrow> tinterval \<Rightarrow> jsnum \<Rightarrow> tinterval"
  moment_subtract :: "instant \<Rightarrow> jsnum \<Rightarrow> string \<Rightarrow> instant"
  moment_add :: "instant \<Rightarrow> jsnum \<Rightarrow> string \<Rightarrow> instant"
  moment_startOf :: "string option \<Rightarrow> string \<Rightarrow> instant \<Rightarrow> instant"
  every_count :: "instant \<Rightarrow> jsnum \<Rightarrow> string \<Rightarrow> instant \<Rightarrow> real"
  every_nth :: "instant \<Rightarrow> jsnum \<Rightarrow> string \<Rightarrow> int \<Rightarrow> instant"

text \<open>
  What a call can reach: the chart, and the caller's \<open>series\<close>, \<open>xValues\<close>, \<open>xDomain\<close>
  and \<open>yExtent\<close> arrays; \<open>console\<close> collects the arguments of \<open>console.warn\<close>.
  \<open>xDomain\<close> and \<open>yExtent\<close> are two-element arrays \<open>[min, max]\<close>. An entry \<open>undefined\<close>
  of a numeric one is \<open>NaN\<close>, which is what \<open><\<close>, \<open>></\<close>, \<open>-\<close> and \<open>+\<close> make of it.
\<close>

record ('v, 'd) world =
  chart :: "'v chart"
  series :: "single_series list"
  xValues :: "'v list"
  xDomain :: "'d \<times> 'd"
  yExtent :: "jsnum \<times> jsnum"
  console :: "string option list list"

datatype error = Thrown string | TypeError | ErrorObject string

definition X_LABEL_PADDING :: jsnum where
  "X_LABEL_PADDING = Fin 10"

definition Y_LABEL_PADDING :: jsnum where
  "Y_LABEL_PADDING = Fin 22"

text \<open>\<open>a || b\<close>.\<close>

definition js_or :: "jsval \<Rightarrow> jsval \<Rightarrow> jsval" where
  "js_or a b = (if truthy a then a else b)"

text \<open>\<open>a !== b\<close> on numbers: \<open>NaN\<close> differs from itself.\<close>

definition num_strict_neq :: "jsnum \<Rightarrow> jsnum \<Rightarrow> bool" where
  "num_strict_neq a b = (a = NaN \<or> a \<noteq> b)"

text \<open>
  \<open>_.uniq\<close>: the loop that appends a value to \<open>result\<close> unless \<open>result\<close> contains it, so
  the first occurrence of each value is kept.
\<close>

fun uniq_loop :: "'a list \<Rightarrow> 'a list \<Rightarrow> 'a list" where
  "uniq_loop result [] = result"
| "uniq_loop result (v # vs) =
     uniq_loop (if v \<in> set result then result else result @ [v]) vs"

definition uniq :: "'a list \<Rightarrow> 'a list" where
  "uniq xs = uniq_loop [] xs"

text \<open>
  The condition of the log-scale checks:
  \<open>!((a < 0 && b < 0) || (a > 0 && b > 0))\<close>.
\<close>

definition crosses_zero :: "jsnum \<Rightarrow> jsnum \<Rightarrow> bool" where
  "crosses_zero a b =
     (\<not> ((js_lt a (Fin 0) \<and> js_lt b (Fin 0)) \<or> (js_gt a (Fin 0) \<and> js_gt b (Fin 0))))"

definition X_LOG_MESSAGE :: string where
  "X_LOG_MESSAGE = ''X-axis must not cross 0 when using log scale.''"

definition Y_LOG_MESSAGE :: string where
  "Y_LOG_MESSAGE = ''Y-axis must not cross 0 when using log scale.''"

section \<open>The axis functions\<close>

text \<open>
  Each function takes the library, the immutable arguments and the world, and returns
  \<open>None\<close> with the world after the call, or \<open>Some e\<close> for the error \<open>e\<close> it throws,
  with the world as it is when the error is thrown. Reading a property of \<open>undefined\<close>
  throws a \<open>TypeError\<close>. The blocks \<open>if (labels_enabled) ...\<close> and
  \<open>if (axis_enabled) ... else ...\<close> of each function are definitions of their own.
\<close>

text \<open>
  \<open>if (chart.settings["graph.x_axis.labels_enabled"]) chart.xAxisLabel(...)\<close>, the same
  in the three x-axis functions.
\<close>

definition x_labels_block :: "'v lib \<Rightarrow> column option \<Rightarrow> 'v chart \<Rightarrow> 'v chart" where
  "x_labels_block L dimensionColumn c =
     (if truthy (settings c ''graph.x_axis.labels_enabled'')
      then c\<lparr>xAxisLabel := Some
             (js_or (settings c ''graph.x_axis.title_text'')
                (Str (getFriendlyName L dimensionColumn)),
              X_LABEL_PADDING)\<rparr>
      else c)"

definition quantitative_axis_block ::
  "'v lib \<Rightarrow> column option \<Rightarrow> 'v list \<Rightarrow> 'v chart \<Rightarrow> 'v chart" where
  "quantitative_axis_block L dimensionColumn xVals c =
     (if truthy (settings c ''graph.x_axis.axis_enabled'')
      then c\<lparr>renderVerticalGridLines := Some (settings c ''graph.x_axis.gridLine_enabled''),
             xAxis :=
               (adjustXAxisTicksIfNeeded (String_of L) (xAxis c) (width c) xVals)
               \<lparr>tickFormat := FormatValue dimensionColumn
                  (settings c ''graph.x_axis.axis_enabled'' = Str ''compact'')\<rparr>\<rparr>
      else c\<lparr>xAxis := (axis_set_ticks [TNum (Fin 0)] (xAxis c))\<lparr>tickFormat := EmptyFormat\<rparr>\<rparr>)"

definition applyChartQuantitativeXAxis ::
  "'v lib \<Rightarrow> jsnum \<Rightarrow> ('v, jsnum) world \<Rightarrow> error option \<times> ('v, jsnum) world" where
  "applyChartQuantitativeXAxis L xInterval w =
     (case find (\<lambda>s. \<not> datasetContainsNoResults L (data s)) (series w) of
        None \<Rightarrow> (Some TypeError, w)
      | Some firstSeries \<Rightarrow>
          (let dimensionColumn = col_at (data firstSeries) 0;
               c = quantitative_axis_block L dimensionColumn (xValues w)
                     (x_labels_block L dimensionColumn (chart w));
               x0 = fst (xDomain w);
               x1 = snd (xDomain w)
           in if settings c ''graph.x_axis.scale'' \<noteq> Str ''pow''
                 \<and> settings c ''graph.x_axis.scale'' = Str ''log''
                 \<and> crosses_zero x0 x1
              then (Some (Thrown X_LOG_MESSAGE), w\<lparr>chart := c\<rparr>)
              else
                (let scale =
                       (if settings c ''graph.x_axis.scale'' = Str ''pow''
                        then d3_scale_pow_exponent (1 / 2)
                        else if settings c ''graph.x_axis.scale'' = Str ''log''
                        then d3_scale_log_base_E
                        else d3_scale_linear);
                     xDomain' = [js_sub x0 (js_mul xInterval (Fin (3 / 4))),
                                 js_add x1 (js_mul xInterval (Fin (3 / 4)))]
                 in (None,
                     w\<lparr>chart := c\<lparr>x_scale := Some (NumScale (scale\<lparr>sc_domain := xDomain'\<rparr>)),
                                    xUnits := Some (PrecisionUnits xInterval)\<rparr>\<rparr>))))"

definition ordinal_axis_block ::
  "'v lib \<Rightarrow> column option \<Rightarrow> 'v list \<Rightarrow> 'v chart \<Rightarrow> 'v chart" where
  "ordinal_axis_block L dimensionColumn xVals c =
     (if truthy (settings c ''graph.x_axis.axis_enabled'')
      then c\<lparr>renderVerticalGridLines := Some (settings c ''graph.x_axis.gridLine_enabled''),
             xAxis :=
               (adjustXAxisTicksIfNeeded (String_of L)
                  (axis_set_ticks [TNum (Fin (of_nat (length xVals)))] (xAxis c))
                  (width c) xVals)
               \<lparr>tickFormat := FormatValue dimensionColumn
                  (settings c ''graph.x_axis.labels_enabled'' = Str ''compact'')\<rparr>\<rparr>
      else c\<lparr>xAxis := (axis_set_ticks [TNum (Fin 0)] (xAxis c))\<lparr>tickFormat := EmptyFormat\<rparr>\<rparr>)"

definition applyChartOrdinalXAxis ::
  "'v lib \<Rightarrow> ('v, 'd) world \<Rightarrow> error option \<times> ('v, 'd) world" where
  "applyChartOrdinalXAxis L w =
     (case find (\<lambda>s. \<not> datasetContainsNoResults L (data s)) (series w) of
        None \<Rightarrow> (Some TypeError, w)
      | Some firstSeries \<Rightarrow>
          (let dimensionColumn = col_at (data firstSeries) 0;
               c = ordinal_axis_block L dimensionColumn (xValues w)
                     (x_labels_block L dimensionColumn (chart w))
           in (None,
               w\<lparr>chart := c\<lparr>x_scale := Some (OrdinalScale (xValues w)),
                              xUnits := Some OrdinalUnits\<rparr>\<rparr>)))"

text \<open>
  \<open>series.map(s => s.data.cols[0].timezone)\<close>: a \<open>TypeError\<close> at the first series whose
  dataset has no column.
\<close>

fun map_timezone :: "single_series list \<Rightarrow> error + string option list" where
  "map_timezone [] = Inr []"
| "map_timezone (s # ss) =
     (case col_at (data s) 0 of
        None \<Rightarrow> Inl TypeError
      | Some c \<Rightarrow>
          (case map_timezone ss of
             Inl e \<Rightarrow> Inl e
           | Inr tzs \<Rightarrow> Inr (timezone c # tzs)))"

text \<open>\<open>filter(tz => tz)\<close>: a missing timezone and the empty string are dropped.\<close>

fun truthy_tz :: "string option \<Rightarrow> bool" where
  "truthy_tz None = False"
| "truthy_tz (Some s) = (s \<noteq> [])"

definition rangeFn_arg :: "string option \<Rightarrow> tickarg" where
  "rangeFn_arg f = (case f of None \<Rightarrow> TUndefined | Some h \<Rightarrow> TFn h)"

text \<open>
  The block \<open>if (axis_enabled) ... else ...\<close> of \<open>applyChartTimeseriesXAxis\<close>. It returns
  the chart and the final value of the variable \<open>tickInterval\<close>, or the error with the
  chart at that point.
\<close>

definition timeseries_axis_block ::
  "'v lib \<Rightarrow> tinterval \<Rightarrow> instant \<times> instant \<Rightarrow> column option \<Rightarrow> 'v chart
     \<Rightarrow> (error \<times> 'v chart) + ('v chart \<times> tinterval)" where
  "timeseries_axis_block L dataInterval xDom dimensionColumn0 c0 =
     (let tickInterval0 = dataInterval
      in if truthy (settings c0 ''graph.x_axis.axis_enabled'')
         then
           (let c = c0\<lparr>renderVerticalGridLines :=
                         Some (settings c0 ''graph.x_axis.gridLine_enabled'')\<rparr>
            in case dimensionColumn0 of
                 None \<Rightarrow> Inl (TypeError, c)
               | Some col0 \<Rightarrow>
                   (let dimensionColumn1 =
                          (if unit col0 = None
                           then col0\<lparr>unit := Some (ti_interval dataInterval)\<rparr>
                           else col0);
                        compressed =
                          (ti_interval dataInterval = ''week'' \<and>
                           (let newTickInterval =
                                  computeTimeseriesTicksInterval L xDom tickInterval0 (width c)
                            in ti_interval newTickInterval \<noteq> ti_interval tickInterval0
                               \<or> num_strict_neq (ti_count newTickInterval)
                                    (ti_count tickInterval0)));
                        dimensionColumn2 =
                          (if compressed then dimensionColumn1\<lparr>unit := Some ''month''\<rparr>
                           else dimensionColumn1);
                        tickInterval1 =
                          (if compressed
                           then \<lparr>ti_interval = ''month'', ti_count = Fin 1, ti_rangeFn = None\<rparr>
                           else tickInterval0);
                        tickInterval2 =
                          computeTimeseriesTicksInterval L xDom tickInterval1 (width c)
                    in Inr
                         (c\<lparr>xAxis :=
                              axis_set_ticks
                                [rangeFn_arg (ti_rangeFn tickInterval2),
                                 TNum (ti_count tickInterval2)]
                                ((xAxis c)\<lparr>tickFormat :=
                                    FormatValue (Some dimensionColumn2)
                                      (settings c ''graph.x_axis.axis_enabled''
                                         = Str ''compact'')\<rparr>)\<rparr>,
                          tickInterval2)))
         else Inr (c0\<lparr>xAxis := axis_set_ticks [TNum (Fin 0)] (xAxis c0)\<rparr>, tickInterval0))"

definition applyChartTimeseriesXAxis ::
  "'v lib \<Rightarrow> tinterval \<Rightarrow> ('v, instant) world \<Rightarrow> error option \<times> ('v, instant) world" where
  "applyChartTimeseriesXAxis L xInterval w =
     (case find (\<lambda>s. \<not> datasetContainsNoResults L (data s)) (series w) of
        None \<Rightarrow> (Some TypeError, w)
      | Some firstSeries \<Rightarrow>
          (case map_timezone (series w) of
             Inl e \<Rightarrow> (Some e, w)
           | Inr tzs \<Rightarrow>
               (let dimensionColumn = col_at (data firstSeries) 0;
                    timezones = uniq (filter truthy_tz tzs);
                    w1 = (if length timezones \<noteq> 1
                          then w\<lparr>console := console w @ [timezones]\<rparr> else w);
                    tz = (case timezones of [] \<Rightarrow> None | t # _ \<Rightarrow> t);
                    dataInterval = xInterval
                in case timeseries_axis_block L dataInterval (xDomain w1) dimensionColumn
                          (x_labels_block L dimensionColumn (chart w1)) of
                     Inl (e, c) \<Rightarrow> (Some e, w1\<lparr>chart := c\<rparr>)
                   | Inr (c, tickInterval) \<Rightarrow>
                       (let d0 = moment_subtract L (fst (xDomain w1))
                                   (js_mul (ti_count dataInterval) (Fin (3 / 4)))
                                   (ti_interval dataInterval);
                            d1 = moment_add L (snd (xDomain w1))
                                   (js_mul (ti_count dataInterval) (Fin (3 / 4)))
                                   (ti_interval dataInterval);
                            w2 = w1\<lparr>xDomain := (d0, d1)\<rparr>
                        in (None,
                            w2\<lparr>chart :=
                                 c\<lparr>x_scale := Some (TimeScale
                                       \<lparr>ts_tz = tz, ts_domain = xDomain w2,
                                        ts_tickInterval = tickInterval\<rparr>),
                                    xUnits := Some (TimeseriesUnits dataInterval)\<rparr>\<rparr>)))))"

text \<open>
  The object \<open>axis\<close> of \<open>applyChartYAxis\<close>: its four closures on the left axis, or on the
  right one when \<open>axisName === "right"\<close>. Both read the same settings.
\<close>

definition axis_scale :: "bool \<Rightarrow> nscale \<Rightarrow> 'v chart \<Rightarrow> 'v chart" where
  "axis_scale right sc c = (if right then c\<lparr>rightY_scale := Some sc\<rparr> else c\<lparr>y_scale := Some sc\<rparr>)"

definition axis_axis_update :: "bool \<Rightarrow> (axis \<Rightarrow> axis) \<Rightarrow> 'v chart \<Rightarrow> 'v chart" where
  "axis_axis_update right f c =
     (if right then c\<lparr>rightYAxis := f (rightYAxis c)\<rparr> else c\<lparr>yAxis := f (yAxis c)\<rparr>)"

definition axis_label :: "bool \<Rightarrow> jsval \<times> jsnum \<Rightarrow> 'v chart \<Rightarrow> 'v chart" where
  "axis_label right l c =
     (if right then c\<lparr>rightYAxisLabel := Some l\<rparr> else c\<lparr>yAxisLabel := Some l\<rparr>)"

definition axis_setting :: "'v chart \<Rightarrow> string \<Rightarrow> jsval" where
  "axis_setting c name = settings c (''graph.y_axis.'' @ name)"

definition y_labels_block ::
  "'v lib \<Rightarrow> bool \<Rightarrow> single_series list \<Rightarrow> 'v chart \<Rightarrow> 'v chart" where
  "y_labels_block L right ss c =
     (if truthy (axis_setting c ''labels_enabled'')
      then
        (if truthy (axis_setting c ''title_text'')
         then axis_label right (axis_setting c ''title_text'', Y_LABEL_PADDING) c
         else
           (case uniq (map (\<lambda>s. getFriendlyName L (col_at (data s) 1)) ss) of
              [l] \<Rightarrow> axis_label right (Str l, Y_LABEL_PADDING) c
            | _ \<Rightarrow> c))
      else c)"

definition y_axis_block :: "bool \<Rightarrow> 'v chart \<Rightarrow> 'v chart" where
  "y_axis_block right c =
     (if truthy (axis_setting c ''axis_enabled'')
      then
        (let ca = (if settings c ''stackable.stack_type'' = Str ''normalized''
                   then axis_axis_update right (\<lambda>a. a\<lparr>tickFormat := PercentFormat\<rparr>) c
                   else c);
             cb = ca\<lparr>renderHorizontalGridLines := Some (Bool True)\<rparr>
         in axis_axis_update right (\<lambda>a. adjustYAxisTicksIfNeeded a (height cb)) cb)
      else axis_axis_update right (axis_set_ticks [TNum (Fin 0)]) c)"

definition applyChartYAxis ::
  "'v lib \<Rightarrow> jsval \<Rightarrow> ('v, 'd) world \<Rightarrow> error option \<times> ('v, 'd) world" where
  "applyChartYAxis L axisName w =
     (let right = (axisName = Str ''right'');
          c = y_axis_block right (y_labels_block L right (series w) (chart w));
          scale = (if axis_setting c ''scale'' = Str ''pow'' then d3_scale_pow_exponent (1 / 2)
                   else if axis_setting c ''scale'' = Str ''log'' then d3_scale_log_base_E
                   else d3_scale_linear)
      in if truthy (axis_setting c ''auto_range'')
         then
           (if axis_setting c ''scale'' \<noteq> Str ''log''
            then (None, w\<lparr>chart := axis_scale right scale (c\<lparr>elasticY := Some (Bool True)\<rparr>)\<rparr>)
            else if crosses_zero (fst (yExtent w)) (snd (yExtent w))
            then (Some (Thrown Y_LOG_MESSAGE), w\<lparr>chart := c\<rparr>)
            else (None,
                  w\<lparr>chart := axis_scale right
                     (scale\<lparr>sc_domain := [fst (yExtent w), snd (yExtent w)]\<rparr>) c\<rparr>))
         else
           (if axis_setting c ''scale'' = Str ''log''
               \<and> crosses_zero (to_number (StringToNumber L) (axis_setting c ''min''))
                    (to_number (StringToNumber L) (axis_setting c ''max''))
            then (Some (Thrown Y_LOG_MESSAGE), w\<lparr>chart := c\<rparr>)
            else (None,
                  w\<lparr>chart := axis_scale right
                     (scale\<lparr>sc_domain := [to_number (StringToNumber L) (axis_setting c ''min''),
                                         to_number (StringToNumber L) (axis_setting c ''max'')]\<rparr>)
                     c\<rparr>)))"



definition has_results :: "'v lib \<Rightarrow> single_series list \<Rightarrow> bool" where
  "has_results L ss = (find (\<lambda>s. \<not> datasetContainsNoResults L (data s)) ss \<noteq> None)"

section \<open>The ticks of the time scale\<close>



section \<open>NewQueryOptions\<close>

text \<open>
  The methods of the query library that the component calls, as parameters:
  \<open>toAggregation_clause o\<close> is \<open>o.toAggregation().clause\<close> and \<open>setField_clause a i\<close>
  is \<open>a.setField(i).clause\<close>. A wrapped aggregation is an object, so it is truthy.
\<close>

record ('q, 'o, 'a, 'c, 'i) qlib =
  addAggregation :: "'q \<Rightarrow> 'c \<Rightarrow> 'q"
  toAggregation_clause :: "'o \<Rightarrow> 'c"
  hasFields :: "'o \<Rightarrow> jsval"
  aggregationsWrapped :: "'q \<Rightarrow> 'a list"
  setField_clause :: "'a \<Rightarrow> 'i \<Rightarrow> 'c"
  updateAggregation :: "'q \<Rightarrow> nat \<Rightarrow> 'c \<Rightarrow> 'q"

text \<open>A call of one of the two continuations in \<open>props\<close>, with its argument.\<close>

datatype 'q call = UpdateQuery 'q | OnComplete 'q

text \<open>
  The props hold the current query; \<open>calls\<close> is the list of continuation calls made so
  far, which each method extends.
\<close>

record 'q props =
  query :: 'q
  calls :: "'q call list"

record 'i field =
  field_id :: 'i

definition setAggregation ::
  "('q, 'o, 'a, 'c, 'i) qlib \<Rightarrow> 'o \<Rightarrow> 'q props \<Rightarrow> error option \<times> 'q props" where
  "setAggregation Q option p =
     (let updatedQuery = addAggregation Q (query p) (toAggregation_clause Q option)
      in if truthy (hasFields Q option)
         then (None, p\<lparr>calls := calls p @ [UpdateQuery updatedQuery]\<rparr>)
         else (None, p\<lparr>calls := calls p @ [OnComplete updatedQuery]\<rparr>))"

definition setAggregationField ::
  "('q, 'o, 'a, 'c, 'i) qlib \<Rightarrow> 'i field \<Rightarrow> 'q props \<Rightarrow> error option \<times> 'q props" where
  "setAggregationField Q fld p =
     (case aggregationsWrapped Q (query p) of
        [] \<Rightarrow> (Some (ErrorObject ''Trying to set the field of a non-existing aggregation''), p)
      | aggregation # _ \<Rightarrow>
          (let updatedQuery =
                 updateAggregation Q (query p) 0 (setField_clause Q aggregation (field_id fld))
           in (None, p\<lparr>calls := calls p @ [OnComplete updatedQuery]\<rparr>)))"

section \<open>Example inputs\<close>

text \<open>
  A small library, chart and worlds at which the theorems below are evaluated. The example
  library measures every unit in milliseconds (a second is 1000, a day 86400000).
\<close>

definition example_unit_ms :: "string \<Rightarrow> real" where
  "example_unit_ms u = (if u = ''s'' then 1000 else if u = ''day'' then 86400000 else 1)"

definition example_ms :: "jsnum \<Rightarrow> string \<Rightarrow> real" where
  "example_ms n u = (case n of Fin r \<Rightarrow> r * example_unit_ms u | _ \<Rightarrow> 0)"

definition example_lib :: "string lib" where
  "example_lib =
     \<lparr>String_of = (\<lambda>v. v),
      StringToNumber = (\<lambda>s. NaN),
      datasetContainsNoResults = (\<lambda>d. rows d = []),
      getFriendlyName = (\<lambda>c. case c of None \<Rightarrow> [] | Some col \<Rightarrow> col_name col),
      computeTimeseriesTicksInterval = (\<lambda>d t wd. t),
      moment_subtract = (\<lambda>t n u. t - example_ms n u),
      moment_add = (\<lambda>t n u. t + example_ms n u),
      moment_startOf = (\<lambda>tz u t. example_unit_ms u * of_int \<lfloor>t / example_unit_ms u\<rfloor>),
      every_count = (\<lambda>anchor diff u d. (d - anchor) / example_ms diff u),
      every_nth = (\<lambda>anchor diff u k. anchor + of_int k * example_ms diff u)\<rparr>"

definition example_axis :: axis where
  "example_axis = \<lparr>ticks = TicksArray [TNum (Fin 10)], tickFormat = DefaultFormat\<rparr>"

definition example_settings_log :: "string \<Rightarrow> jsval" where
  "example_settings_log name =
     (if name = ''graph.x_axis.scale'' then Str ''log''
      else if name = ''graph.y_axis.scale'' then Str ''log''
      else if name = ''graph.y_axis.auto_range'' then Bool True
      else Undefined)"

definition example_chart :: "(string \<Rightarrow> jsval) \<Rightarrow> string chart" where
  "example_chart st =
     \<lparr>settings = st, width = Fin 600, height = Fin 400,
      xAxisLabel = None, yAxisLabel = None, rightYAxisLabel = None,
      renderVerticalGridLines = None, renderHorizontalGridLines = None,
      xAxis = example_axis, yAxis = example_axis, rightYAxis = example_axis,
      x_scale = None, xUnits = None, y_scale = None, rightY_scale = None,
      elasticY = None\<rparr>"

definition example_series :: "single_series list" where
  "example_series =
     [\<lparr>data = \<lparr>cols = [\<lparr>col_name = ''created_at'', unit = None, timezone = Some ''UTC''\<rparr>,
                       \<lparr>col_name = ''count'', unit = None, timezone = None\<rparr>],
               rows = [[Num (Fin 1), Num (Fin 2)]]\<rparr>\<rparr>]"

definition example_world ::
  "(string \<Rightarrow> jsval) \<Rightarrow> single_series list \<Rightarrow> 'd \<times> 'd \<Rightarrow> jsnum \<times> jsnum \<Rightarrow> (string, 'd) world" where
  "example_world st ss xd ye =
     \<lparr>chart = example_chart st, series = ss, xValues = [''1'', ''10''], xDomain = xd,
      yExtent = ye, console = []\<rparr>"

definition example_day :: tinterval where
  "example_day = \<lparr>ti_interval = ''day'', ti_count = Fin 1, ti_rangeFn = None\<rparr>"


definition example_qlib :: "(string list, string \<times> bool, string, string, nat) qlib" where
  "example_qlib =
     \<lparr>addAggregation = (\<lambda>q c. q @ [c]),
      toAggregation_clause = fst,
      hasFields = (\<lambda>opt. Bool (snd opt)),
      aggregationsWrapped = (\<lambda>q. q),
      setField_clause = (\<lambda>a i. a @ replicate i CHR ''x''),
      updateAggregation = (\<lambda>q n c. q[n := c])\<rparr>"

section \<open>Numbers and tick counts\<close>

lemma js_lt_irrefl: "\<not> js_lt a a"
  by (cases a) simp_all

lemma js_lt_asym: "js_lt a b \<Longrightarrow> \<not> js_lt b a"
  by (cases a; cases b) simp_all


lemma totalLength_loop_sum:
  "totalLength_loop String acc xs = acc + sum_list (map (\<lambda>v. length (String v)) xs)"
  by (induction xs arbitrary: acc) simp_all

lemma averageStringLengthOfValues_nonempty:
  assumes "xs \<noteq> []"
  shows "averageStringLengthOfValues String xs =
    Fin (of_int \<lfloor>real (sum_list (map (\<lambda>v. length (String v)) (take 100 xs)))
                  / real (length (take 100 xs)) + 1 / 2\<rfloor>)"
  using assms
  by (simp add: averageStringLengthOfValues_def MAX_VALUES_TO_MEASURE_def Let_def
      totalLength_loop_sum)

lemma adjustXAxisTicksIfNeeded_eq:
  assumes "vs \<noteq> []"
  shows "adjustXAxisTicksIfNeeded String a w vs =
           (let measured = take 100 vs;
                avg = \<lfloor>real (sum_list (map (\<lambda>v. length (String v)) measured))
                        / real (length measured) + 1 / 2\<rfloor>;
                maxTicks = Math_floor (js_div w (Fin (of_int (avg * 8))))
            in if js_gt (tick_number (getNumTicks a)) maxTicks
               then a\<lparr>ticks := TicksArray [TNum maxTicks]\<rparr> else a)"
  using assms
  by (simp add: adjustXAxisTicksIfNeeded_def averageStringLengthOfValues_nonempty
      APPROXIMATE_AVERAGE_CHAR_WIDTH_PIXELS_def Let_def axis_set_ticks_def)

lemma adjustXAxisTicksIfNeeded_not_more:
  "\<not> js_gt (tick_number (getNumTicks (adjustXAxisTicksIfNeeded String a w vs)))
         (tick_number (getNumTicks a))"
proof -
  define m where "m = Math_floor (js_div w (js_mul (averageStringLengthOfValues String vs)
     APPROXIMATE_AVERAGE_CHAR_WIDTH_PIXELS))"
  have eq: "adjustXAxisTicksIfNeeded String a w vs =
     (if js_gt (tick_number (getNumTicks a)) m then a\<lparr>ticks := TicksArray [TNum m]\<rparr> else a)"
    by (simp add: adjustXAxisTicksIfNeeded_def Let_def m_def axis_set_ticks_def)
  show ?thesis
  proof (cases "js_gt (tick_number (getNumTicks a)) m")
    case True
    then have "getNumTicks (adjustXAxisTicksIfNeeded String a w vs) = TNum m"
      by (simp add: eq getNumTicks_def)
    with True show ?thesis
      using js_lt_asym [of m "tick_number (getNumTicks a)"]
      by (simp add: js_gt_def)
  next
    case False
    then show ?thesis by (simp add: eq js_gt_def js_lt_irrefl)
  qed
qed

text \<open>
  C4. For a non-empty list of x values, \<open>adjustXAxisTicksIfNeeded\<close> computes
  \<open>maxTicks = floor(chartWidthPixels / (L * 8))\<close>, where \<open>L\<close> is the rounded average
  string length of at most the first 100 values. It sets the axis tick count to
  \<open>maxTicks\<close> exactly when the current tick count exceeds \<open>maxTicks\<close> and leaves the axis
  unchanged otherwise, so the tick count after the call never exceeds the one before.
\<close>

theorem adjustXAxisTicksIfNeeded_spec:
  assumes "vs \<noteq> []"
  shows "(let measured = take 100 vs;
              avg = \<lfloor>real (sum_list (map (\<lambda>v. length (String v)) measured))
                      / real (length measured) + 1 / 2\<rfloor>;
              maxTicks = Math_floor (js_div w (Fin (of_int (avg * 8))))
          in adjustXAxisTicksIfNeeded String a w vs =
               (if js_gt (tick_number (getNumTicks a)) maxTicks
                then a\<lparr>ticks := TicksArray [TNum maxTicks]\<rparr> else a)
             \<and> (js_gt (tick_number (getNumTicks a)) maxTicks \<longrightarrow>
                  getNumTicks (adjustXAxisTicksIfNeeded String a w vs) = TNum maxTicks)
             \<and> (\<not> js_gt (tick_number (getNumTicks a)) maxTicks \<longrightarrow>
                  adjustXAxisTicksIfNeeded String a w vs = a))
         \<and> \<not> js_gt (tick_number (getNumTicks (adjustXAxisTicksIfNeeded String a w vs)))
                (tick_number (getNumTicks a))"
  using adjustXAxisTicksIfNeeded_eq [OF assms, of String a w]
        adjustXAxisTicksIfNeeded_not_more [of String a w vs]
  by (simp add: Let_def getNumTicks_def)

theorem adjustXAxisTicksIfNeeded_spec_witness:
  "[''a'', ''toucan'', ''is'', ''wow''] \<noteq> []
   \<and> adjustXAxisTicksIfNeeded (\<lambda>v. v)
       \<lparr>ticks = TicksArray [TNum (Fin 10)], tickFormat = DefaultFormat\<rparr>
       (Fin 100) [''a'', ''toucan'', ''is'', ''wow'']
     = \<lparr>ticks = TicksArray [TNum (Fin 4)], tickFormat = DefaultFormat\<rparr>"
  using adjustXAxisTicksIfNeeded_spec
    [of "[''a'', ''toucan'', ''is'', ''wow'']" "\<lambda>v. v" "Fin 100"
        "\<lparr>ticks = TicksArray [TNum (Fin 10)], tickFormat = DefaultFormat\<rparr>"]
  by (simp add: Let_def getNumTicks_def js_gt_def)

text \<open>
  C5. \<open>adjustYAxisTicksIfNeeded\<close> sets the axis tick count to
  \<open>floor(axisHeightPixels / 32)\<close> exactly when \<open>axisHeightPixels\<close> divided by the current
  tick count is strictly less than 32, and leaves the axis unchanged otherwise. The
  current tick count is read by \<open>getNumTicks\<close>: the first element when \<open>axis.ticks()\<close> is
  an array, the value itself otherwise.
\<close>

theorem adjustYAxisTicksIfNeeded_spec:
  "adjustYAxisTicksIfNeeded a h =
     (if js_lt (js_div h (tick_number (getNumTicks a))) (Fin 32)
      then a\<lparr>ticks := TicksArray [TNum (Math_floor (js_div h (Fin 32)))]\<rparr>
      else a)
   \<and> (js_lt (js_div h (tick_number (getNumTicks a))) (Fin 32) \<longrightarrow>
        getNumTicks (adjustYAxisTicksIfNeeded a h) = TNum (Math_floor (js_div h (Fin 32))))
   \<and> (\<not> js_lt (js_div h (tick_number (getNumTicks a))) (Fin 32) \<longrightarrow>
        adjustYAxisTicksIfNeeded a h = a)
   \<and> getNumTicks (a\<lparr>ticks := TicksArray (x # xs)\<rparr>) = x
   \<and> getNumTicks (a\<lparr>ticks := TicksValue v\<rparr>) = v"
  by (simp add: adjustYAxisTicksIfNeeded_def MIN_PIXELS_PER_TICK_def axis_set_ticks_def
      getNumTicks_def Let_def)

theorem adjustYAxisTicksIfNeeded_spec_witness:
  "getNumTicks (adjustYAxisTicksIfNeeded
      \<lparr>ticks = TicksArray [TNum (Fin 10)], tickFormat = DefaultFormat\<rparr> (Fin 100))
     = TNum (Fin 3)
   \<and> adjustYAxisTicksIfNeeded
      \<lparr>ticks = TicksValue (TNum (Fin 2)), tickFormat = DefaultFormat\<rparr> (Fin 100)
     = \<lparr>ticks = TicksValue (TNum (Fin 2)), tickFormat = DefaultFormat\<rparr>"
  using adjustYAxisTicksIfNeeded_spec
          [of "\<lparr>ticks = TicksArray [TNum (Fin 10)], tickFormat = DefaultFormat\<rparr>" "Fin 100"]
        adjustYAxisTicksIfNeeded_spec
          [of "\<lparr>ticks = TicksValue (TNum (Fin 2)), tickFormat = DefaultFormat\<rparr>" "Fin 100"]
  by (simp add: getNumTicks_def)

text \<open>
  C8. When the list of x values is empty, \<open>averageStringLengthOfValues\<close> divides zero by
  zero and yields \<open>NaN\<close>, the tick limit derived from it is \<open>NaN\<close>, no tick count is
  greater than \<open>NaN\<close>, and \<open>adjustXAxisTicksIfNeeded\<close> returns the axis as it was. The
  function has no error result.
\<close>

theorem adjustXAxisTicksIfNeeded_empty:
  "averageStringLengthOfValues String [] = NaN
   \<and> Math_floor (js_div w (js_mul NaN APPROXIMATE_AVERAGE_CHAR_WIDTH_PIXELS)) = NaN
   \<and> \<not> js_gt n NaN
   \<and> adjustXAxisTicksIfNeeded String a w [] = a"
  apply (intro conjI)
  subgoal by (simp add: averageStringLengthOfValues_def Let_def)
  subgoal by (cases w) simp_all
  subgoal by (cases n) (simp_all add: js_gt_def)
  subgoal
    by (cases w; cases "tick_number (getNumTicks a)")
       (simp_all add: adjustXAxisTicksIfNeeded_def averageStringLengthOfValues_def Let_def js_gt_def)
  done

section \<open>NewQueryOptions: the continuations\<close>

text \<open>
  C9. \<open>setAggregation\<close> builds the query extended with the option's aggregation clause and
  makes exactly one continuation call with it: \<open>updateQuery\<close> if \<open>option.hasFields()\<close> is
  truthy, \<open>onComplete\<close> otherwise.
\<close>

theorem setAggregation_one_continuation:
  "setAggregation Q opt p =
     (None, p\<lparr>calls := calls p @
        [if truthy (hasFields Q opt)
         then UpdateQuery (addAggregation Q (query p) (toAggregation_clause Q opt))
         else OnComplete (addAggregation Q (query p) (toAggregation_clause Q opt))]\<rparr>)
   \<and> length (calls (snd (setAggregation Q opt p))) = Suc (length (calls p))"
  by (simp add: setAggregation_def Let_def)

text \<open>
  C10. \<open>setAggregationField\<close> raises the Error "Trying to set the field of a non-existing
  aggregation" exactly when the current query has no aggregation at index 0, and then
  makes no continuation call; otherwise it calls \<open>onComplete\<close> with the query whose
  aggregation 0 has its field set to the id of the given field.
\<close>

theorem setAggregationField_spec:
  "(fst (setAggregationField Q fld p)
      = Some (ErrorObject ''Trying to set the field of a non-existing aggregation'')
    \<longleftrightarrow> aggregationsWrapped Q (query p) = [])
   \<and> (fst (setAggregationField Q fld p) \<noteq> None \<longleftrightarrow> aggregationsWrapped Q (query p) = [])
   \<and> (fst (setAggregationField Q fld p) \<noteq> None \<longrightarrow> snd (setAggregationField Q fld p) = p)
   \<and> (\<forall>a as. aggregationsWrapped Q (query p) = a # as \<longrightarrow>
        setAggregationField Q fld p =
          (None, p\<lparr>calls := calls p @
             [OnComplete (updateAggregation Q (query p) 0
                (setField_clause Q a (field_id fld)))]\<rparr>))"
  by (cases "aggregationsWrapped Q (query p)") (simp_all add: setAggregationField_def Let_def)

theorem setAggregationField_spec_witness:
  "setAggregationField example_qlib \<lparr>field_id = 2\<rparr> \<lparr>query = [''sum''], calls = []\<rparr>
     = (None, \<lparr>query = [''sum''], calls = [OnComplete [''sumxx'']]\<rparr>)
   \<and> setAggregationField example_qlib \<lparr>field_id = 2\<rparr> \<lparr>query = [], calls = []\<rparr>
     = (Some (ErrorObject ''Trying to set the field of a non-existing aggregation''),
        \<lparr>query = [], calls = []\<rparr>)"
  using setAggregationField_spec
          [of example_qlib "\<lparr>field_id = 2\<rparr>" "\<lparr>query = [''sum''], calls = []\<rparr>"]
        setAggregationField_spec
          [of example_qlib "\<lparr>field_id = 2\<rparr>" "\<lparr>query = [], calls = []\<rparr>"]
  by (auto simp add: example_qlib_def prod_eq_iff numeral_2_eq_2)

section \<open>The ticks of the time scale: the list returned\<close>







section \<open>The axis functions: errors, padding and frame\<close>

lemma crosses_zero_zero: "crosses_zero (Fin 0) b" "crosses_zero a (Fin 0)"
  by (simp_all add: crosses_zero_def js_gt_def)

lemma x_labels_block_settings [simp]: "settings (x_labels_block L d c) = settings c"
  by (simp add: x_labels_block_def)

lemma quantitative_axis_block_settings [simp]:
  "settings (quantitative_axis_block L d vs c) = settings c"
  by (simp add: quantitative_axis_block_def)

lemma ordinal_axis_block_settings [simp]:
  "settings (ordinal_axis_block L d vs c) = settings c"
  by (simp add: ordinal_axis_block_def)

lemma y_labels_block_settings [simp]: "settings (y_labels_block L r ss c) = settings c"
  by (simp add: y_labels_block_def axis_label_def split: list.splits)

lemma y_axis_block_settings [simp]: "settings (y_axis_block r c) = settings c"
  by (simp add: y_axis_block_def axis_axis_update_def Let_def)

lemma axis_scale_settings [simp]: "settings (axis_scale r sc c) = settings c"
  by (simp add: axis_scale_def)

lemma axis_setting_cong: "settings c = settings c' \<Longrightarrow> axis_setting c = axis_setting c'"
  by (simp add: axis_setting_def fun_eq_iff)

lemma y_blocks_axis_setting:
  "axis_setting (y_axis_block r (y_labels_block L r ss c)) = axis_setting c"
  by (rule axis_setting_cong) simp

lemma timeseries_axis_block_Inr:
  "\<exists>c' t. timeseries_axis_block L di xd (Some col) c = Inr (c', t) \<and> settings c' = settings c"
  by (simp add: timeseries_axis_block_def Let_def axis_set_ticks_def)

lemma map_timezone_Inr:
  "(\<exists>tzs. map_timezone ss = Inr tzs) \<longleftrightarrow> (\<forall>s \<in> set ss. cols (data s) \<noteq> [])"
  by (induction ss) (auto simp add: col_at_def split: sum.splits)

lemma map_timezone_Inl: "map_timezone ss = Inl e \<Longrightarrow> e = TypeError"
  by (induction ss) (auto split: option.splits sum.splits)

lemma quantitative_outcome:
  assumes "has_results L (series w)"
  shows "fst (applyChartQuantitativeXAxis L xi w) =
           (if settings (chart w) ''graph.x_axis.scale'' = Str ''log''
               \<and> crosses_zero (fst (xDomain w)) (snd (xDomain w))
            then Some (Thrown X_LOG_MESSAGE) else None)"
  using assms
  by (auto simp add: has_results_def applyChartQuantitativeXAxis_def Let_def
      split: option.splits)

lemma quantitative_no_results:
  assumes "\<not> has_results L (series w)"
  shows "applyChartQuantitativeXAxis L xi w = (Some TypeError, w)"
  using assms
  by (simp add: has_results_def applyChartQuantitativeXAxis_def)


lemma ordinal_outcome:
  "fst (applyChartOrdinalXAxis L w) = (if has_results L (series w) then None else Some TypeError)"
  by (auto simp add: has_results_def applyChartOrdinalXAxis_def Let_def split: option.splits)

lemma y_outcome:
  "fst (applyChartYAxis L n w) =
     (if axis_setting (chart w) ''scale'' = Str ''log''
         \<and> (if truthy (axis_setting (chart w) ''auto_range'')
             then crosses_zero (fst (yExtent w)) (snd (yExtent w))
             else crosses_zero (to_number (StringToNumber L) (axis_setting (chart w) ''min''))
                    (to_number (StringToNumber L) (axis_setting (chart w) ''max'')))
      then Some (Thrown Y_LOG_MESSAGE) else None)"
  by (simp add: applyChartYAxis_def Let_def y_blocks_axis_setting)

lemma timeseries_no_results:
  assumes "\<not> has_results L (series w)"
  shows "applyChartTimeseriesXAxis L ti w = (Some TypeError, w)"
  using assms
  by (simp add: has_results_def applyChartTimeseriesXAxis_def)

lemma timeseries_no_column:
  assumes "\<not> (\<forall>s \<in> set (series w). cols (data s) \<noteq> [])"
  shows "applyChartTimeseriesXAxis L ti w = (Some TypeError, w)"
proof -
  from assms have "\<not> (\<exists>tzs. map_timezone (series w) = Inr tzs)"
    using map_timezone_Inr [of "series w"] by blast
  then obtain e where "map_timezone (series w) = Inl e"
    by (cases "map_timezone (series w)") auto
  moreover from this have "e = TypeError" by (rule map_timezone_Inl)
  ultimately show ?thesis
    by (simp add: applyChartTimeseriesXAxis_def split: option.splits)
qed

lemma timeseries_success:
  assumes res: "has_results L (series w)"
    and cols: "\<forall>s \<in> set (series w). cols (data s) \<noteq> []"
  shows "\<exists>c tz tk cons.
           applyChartTimeseriesXAxis L ti w =
             (None,
              w\<lparr>chart := c, console := cons,
                xDomain :=
                  (moment_subtract L (fst (xDomain w)) (js_mul (ti_count ti) (Fin (3 / 4)))
                     (ti_interval ti),
                   moment_add L (snd (xDomain w)) (js_mul (ti_count ti) (Fin (3 / 4)))
                     (ti_interval ti))\<rparr>)
           \<and> settings c = settings (chart w)
           \<and> x_scale c = Some (TimeScale
               \<lparr>ts_tz = tz,
                ts_domain =
                  (moment_subtract L (fst (xDomain w)) (js_mul (ti_count ti) (Fin (3 / 4)))
                     (ti_interval ti),
                   moment_add L (snd (xDomain w)) (js_mul (ti_count ti) (Fin (3 / 4)))
                     (ti_interval ti)),
                ts_tickInterval = tk\<rparr>)"
proof -
  from res obtain fs where fs: "find (\<lambda>s. \<not> datasetContainsNoResults L (data s)) (series w) = Some fs"
    by (auto simp add: has_results_def)
  then have "fs \<in> set (series w)"
    by (auto simp add: find_Some_iff)
  with cols have "cols (data fs) \<noteq> []" by blast
  then obtain col where col: "col_at (data fs) 0 = Some col"
    by (simp add: col_at_def)
  from cols obtain tzs where tzs: "map_timezone (series w) = Inr tzs"
    using map_timezone_Inr [of "series w"] by blast
  define cons where "cons = (if length (uniq (filter truthy_tz tzs)) \<noteq> 1
                          then console w @ [uniq (filter truthy_tz tzs)] else console w)"
  obtain c tk where blk: "timeseries_axis_block L ti (xDomain w) (Some col)
                            (x_labels_block L (Some col) (chart w)) = Inr (c, tk)"
    and st: "settings c = settings (x_labels_block L (Some col) (chart w))"
    using timeseries_axis_block_Inr [of L ti "xDomain w" col "x_labels_block L (Some col) (chart w)"]
    by blast
  have "applyChartTimeseriesXAxis L ti w =
          (None,
           w\<lparr>chart := c\<lparr>x_scale := Some (TimeScale
                          \<lparr>ts_tz = (case uniq (filter truthy_tz tzs) of [] \<Rightarrow> None | t # _ \<Rightarrow> t),
                           ts_domain =
                             (moment_subtract L (fst (xDomain w)) (js_mul (ti_count ti) (Fin (3 / 4)))
                                (ti_interval ti),
                              moment_add L (snd (xDomain w)) (js_mul (ti_count ti) (Fin (3 / 4)))
                                (ti_interval ti)),
                           ts_tickInterval = tk\<rparr>),
                        xUnits := Some (TimeseriesUnits ti)\<rparr>,
             console := cons,
             xDomain :=
               (moment_subtract L (fst (xDomain w)) (js_mul (ti_count ti) (Fin (3 / 4)))
                  (ti_interval ti),
                moment_add L (snd (xDomain w)) (js_mul (ti_count ti) (Fin (3 / 4)))
                  (ti_interval ti))\<rparr>)"
    using blk fs tzs col
    by (cases w) (simp add: applyChartTimeseriesXAxis_def Let_def cons_def)
  moreover have "settings c = settings (chart w)"
    using st by simp
  ultimately show ?thesis
    by (intro exI [of _ "c\<lparr>x_scale := _, xUnits := _\<rparr>"] exI conjI) simp_all
qed


lemma timeseries_outcome:
  "fst (applyChartTimeseriesXAxis L ti w) =
     (if has_results L (series w) \<and> (\<forall>s \<in> set (series w). cols (data s) \<noteq> [])
      then None else Some TypeError)"
proof (cases "has_results L (series w) \<and> (\<forall>s \<in> set (series w). cols (data s) \<noteq> [])")
  case True
  then show ?thesis
    using timeseries_success [of L w ti] by auto
next
  case False
  then have "applyChartTimeseriesXAxis L ti w = (Some TypeError, w)"
    using timeseries_no_results [of L w ti] timeseries_no_column [of w L ti] by blast
  with False show ?thesis by simp
qed

text \<open>
  C1. When \<open>series\<close> contains a dataset with results,
  \<open>applyChartQuantitativeXAxis\<close> with the setting \<open>graph.x_axis.scale\<close> equal to \<open>log\<close>
  throws the string "X-axis must not cross 0 when using log scale." if and only if it is
  not the case that \<open>xDomain[0]\<close> and \<open>xDomain[1]\<close> are both strictly negative or both
  strictly positive, so an endpoint equal to 0 throws. \<open>applyChartYAxis\<close> with the scale
  setting \<open>log\<close> throws "Y-axis must not cross 0 when using log scale." under the same
  condition on \<open>yExtent\<close> when the \<open>auto_range\<close> setting is truthy and on the \<open>min\<close> and
  \<open>max\<close> settings when it is falsy. When the condition holds on both endpoints no error
  is raised.
\<close>

theorem log_scale_checks:
  "(has_results L (series w) \<and> settings (chart w) ''graph.x_axis.scale'' = Str ''log'' \<longrightarrow>
      (fst (applyChartQuantitativeXAxis L xi w)
         = Some (Thrown ''X-axis must not cross 0 when using log scale.'')
       \<longleftrightarrow> crosses_zero (fst (xDomain w)) (snd (xDomain w)))
      \<and> (\<not> crosses_zero (fst (xDomain w)) (snd (xDomain w)) \<longrightarrow>
           fst (applyChartQuantitativeXAxis L xi w) = None))
   \<and> (axis_setting (chart w) ''scale'' = Str ''log'' \<longrightarrow>
        (fst (applyChartYAxis L n w)
           = Some (Thrown ''Y-axis must not cross 0 when using log scale.'')
         \<longleftrightarrow> (if truthy (axis_setting (chart w) ''auto_range'')
              then crosses_zero (fst (yExtent w)) (snd (yExtent w))
              else crosses_zero (to_number (StringToNumber L) (axis_setting (chart w) ''min''))
                     (to_number (StringToNumber L) (axis_setting (chart w) ''max''))))
        \<and> (\<not> (if truthy (axis_setting (chart w) ''auto_range'')
                then crosses_zero (fst (yExtent w)) (snd (yExtent w))
                else crosses_zero (to_number (StringToNumber L) (axis_setting (chart w) ''min''))
                       (to_number (StringToNumber L) (axis_setting (chart w) ''max''))) \<longrightarrow>
             fst (applyChartYAxis L n w) = None))
   \<and> (crosses_zero a b \<longleftrightarrow>
        \<not> ((js_lt a (Fin 0) \<and> js_lt b (Fin 0)) \<or> (js_gt a (Fin 0) \<and> js_gt b (Fin 0))))
   \<and> crosses_zero (Fin 0) b \<and> crosses_zero a (Fin 0)"
proof (intro conjI impI)
  assume h: "has_results L (series w) \<and> settings (chart w) ''graph.x_axis.scale'' = Str ''log''"
  then show "fst (applyChartQuantitativeXAxis L xi w)
         = Some (Thrown ''X-axis must not cross 0 when using log scale.'')
       \<longleftrightarrow> crosses_zero (fst (xDomain w)) (snd (xDomain w))"
    by (simp add: quantitative_outcome X_LOG_MESSAGE_def)
  assume "\<not> crosses_zero (fst (xDomain w)) (snd (xDomain w))"
  with h show "fst (applyChartQuantitativeXAxis L xi w) = None"
    by (simp add: quantitative_outcome)
next
  assume h: "axis_setting (chart w) ''scale'' = Str ''log''"
  then show "fst (applyChartYAxis L n w)
           = Some (Thrown ''Y-axis must not cross 0 when using log scale.'')
         \<longleftrightarrow> (if truthy (axis_setting (chart w) ''auto_range'')
              then crosses_zero (fst (yExtent w)) (snd (yExtent w))
              else crosses_zero (to_number (StringToNumber L) (axis_setting (chart w) ''min''))
                     (to_number (StringToNumber L) (axis_setting (chart w) ''max'')))"
    by (simp add: y_outcome Y_LOG_MESSAGE_def)
  assume "\<not> (if truthy (axis_setting (chart w) ''auto_range'')
                then crosses_zero (fst (yExtent w)) (snd (yExtent w))
                else crosses_zero (to_number (StringToNumber L) (axis_setting (chart w) ''min''))
                       (to_number (StringToNumber L) (axis_setting (chart w) ''max'')))"
  with h show "fst (applyChartYAxis L n w) = None"
    by (simp add: y_outcome)
next
  show "crosses_zero a b \<longleftrightarrow>
        \<not> ((js_lt a (Fin 0) \<and> js_lt b (Fin 0)) \<or> (js_gt a (Fin 0) \<and> js_gt b (Fin 0)))"
    by (simp add: crosses_zero_def)
qed (simp_all add: crosses_zero_zero)

lemma example_has_results: "has_results example_lib example_series"
  by (simp add: has_results_def example_lib_def example_series_def)

lemma example_no_results: "\<not> has_results example_lib []"
  by (simp add: has_results_def)

text \<open>
  With a series that has results and the log scale: the domain from -1 to 1 throws on the
  x axis, the extent from 1 to 10 passes on the y axis.
\<close>

theorem log_scale_checks_witness:
  "has_results example_lib example_series
   \<and> fst (applyChartQuantitativeXAxis example_lib (Fin 1)
            (example_world example_settings_log example_series (Fin (- 1), Fin 1) (Fin 1, Fin 10)))
       = Some (Thrown ''X-axis must not cross 0 when using log scale.'')
   \<and> fst (applyChartYAxis example_lib Undefined
            (example_world example_settings_log example_series (Fin (- 1), Fin 1) (Fin 1, Fin 10)))
       = None"
  using log_scale_checks
    [of example_lib
        "example_world example_settings_log example_series (Fin (- 1), Fin 1) (Fin 1, Fin 10)"
        "Fin 1" Undefined]
    example_has_results
  by (simp add: example_world_def example_chart_def example_settings_log_def
      axis_setting_def crosses_zero_def js_gt_def)

text \<open>
  Without a series that has results the equivalence of C1 fails: with \<open>series = []\<close>, the log scale
  and the domain from -1 to 1, \<open>_.find\<close> returns \<open>undefined\<close> and reading
  \<open>firstSeries.data\<close> throws a \<open>TypeError\<close> before the check is reached, so the string is
  not thrown although the domain crosses zero.
\<close>

theorem log_check_no_results_counterexample:
  "settings (chart (example_world example_settings_log [] (Fin (- 1), Fin 1) (Fin 1, Fin 10)))
      ''graph.x_axis.scale'' = Str ''log''
   \<and> crosses_zero (Fin (- 1)) (Fin 1)
   \<and> fst (applyChartQuantitativeXAxis example_lib (Fin 1)
            (example_world example_settings_log [] (Fin (- 1), Fin 1) (Fin 1, Fin 10)))
       = Some TypeError
   \<and> \<not> (fst (applyChartQuantitativeXAxis example_lib (Fin 1)
              (example_world example_settings_log [] (Fin (- 1), Fin 1) (Fin 1, Fin 10)))
           = Some (Thrown ''X-axis must not cross 0 when using log scale.'')
         \<longleftrightarrow> crosses_zero (Fin (- 1)) (Fin 1))"
  by (simp add: applyChartQuantitativeXAxis_def example_world_def example_chart_def
      example_settings_log_def crosses_zero_def js_gt_def)

text \<open>
  C2. Calls into other modules aside, \<open>applyChartYAxis\<close> terminates abnormally
  only by throwing the string "Y-axis must not cross 0 when using log scale." (from one
  of its two checks). When \<open>series\<close> contains a dataset with results,
  \<open>applyChartQuantitativeXAxis\<close> terminates abnormally only by throwing the string
  "X-axis must not cross 0 when using log scale." and \<open>applyChartOrdinalXAxis\<close> returns
  normally; when moreover the dataset of every series has a first column,
  \<open>applyChartTimeseriesXAxis\<close> returns normally. Otherwise the three x-axis functions
  throw a \<open>TypeError\<close>, which is an Error object and not a string.
\<close>

theorem abnormal_terminations:
  "(fst (applyChartYAxis L n w) = None
      \<or> fst (applyChartYAxis L n w)
           = Some (Thrown ''Y-axis must not cross 0 when using log scale.''))
   \<and> (has_results L (series w) \<longrightarrow>
        fst (applyChartQuantitativeXAxis L xi w) = None
        \<or> fst (applyChartQuantitativeXAxis L xi w)
             = Some (Thrown ''X-axis must not cross 0 when using log scale.''))
   \<and> (has_results L (series w) \<longrightarrow> fst (applyChartOrdinalXAxis L w) = None)
   \<and> (has_results L (series wt) \<and> (\<forall>s \<in> set (series wt). cols (data s) \<noteq> []) \<longrightarrow>
        fst (applyChartTimeseriesXAxis L ti wt) = None)
   \<and> (\<not> has_results L (series w) \<longrightarrow>
        fst (applyChartQuantitativeXAxis L xi w) = Some TypeError
        \<and> fst (applyChartOrdinalXAxis L w) = Some TypeError)
   \<and> (\<not> (has_results L (series wt) \<and> (\<forall>s \<in> set (series wt). cols (data s) \<noteq> [])) \<longrightarrow>
        fst (applyChartTimeseriesXAxis L ti wt) = Some TypeError)"
  by (simp add: y_outcome quantitative_outcome quantitative_no_results ordinal_outcome
      timeseries_outcome X_LOG_MESSAGE_def Y_LOG_MESSAGE_def)

text \<open>
  The example series has results and a first column, and the empty series has no results.
\<close>

theorem abnormal_terminations_witness:
  "has_results example_lib example_series
   \<and> list_all (\<lambda>s. cols (data s) \<noteq> []) example_series
   \<and> \<not> has_results example_lib []
   \<and> fst (applyChartOrdinalXAxis example_lib
            (example_world example_settings_log example_series (Fin 1, Fin 10) (Fin 1, Fin 10)))
       = None
   \<and> fst (applyChartTimeseriesXAxis example_lib example_day
            (example_world example_settings_log example_series (0, 86400000) (Fin 1, Fin 10)))
       = None
   \<and> fst (applyChartTimeseriesXAxis example_lib example_day
            (example_world example_settings_log [] (0, 86400000) (Fin 1, Fin 10)))
       = Some TypeError"
  using abnormal_terminations
    [of example_lib Undefined
        "example_world example_settings_log example_series (Fin 1, Fin 10) (Fin 1, Fin 10)"
        "Fin 1"
        "example_world example_settings_log example_series (0, 86400000) (Fin 1, Fin 10)"
        example_day]
    abnormal_terminations
    [of example_lib Undefined
        "example_world example_settings_log example_series (Fin 1, Fin 10) (Fin 1, Fin 10)"
        "Fin 1"
        "example_world example_settings_log [] (0, 86400000) (Fin 1, Fin 10)"
        example_day]
    example_has_results example_no_results
  by (simp add: example_world_def example_series_def)

text \<open>
  The log scale checks are not the only abnormal terminations: at \<open>series = []\<close>,
  \<open>applyChartOrdinalXAxis\<close> terminates with a \<open>TypeError\<close>, which is neither of the
  two strings.
\<close>

theorem ordinal_type_error_counterexample:
  "fst (applyChartOrdinalXAxis example_lib
          (example_world example_settings_log [] (Fin 1, Fin 10) (Fin 1, Fin 10)))
     = Some TypeError
   \<and> \<not> (fst (applyChartOrdinalXAxis example_lib
              (example_world example_settings_log [] (Fin 1, Fin 10) (Fin 1, Fin 10))) = None
         \<or> fst (applyChartOrdinalXAxis example_lib
              (example_world example_settings_log [] (Fin 1, Fin 10) (Fin 1, Fin 10)))
            = Some (Thrown ''X-axis must not cross 0 when using log scale.'')
         \<or> fst (applyChartOrdinalXAxis example_lib
              (example_world example_settings_log [] (Fin 1, Fin 10) (Fin 1, Fin 10)))
            = Some (Thrown ''Y-axis must not cross 0 when using log scale.''))"
  by (simp add: applyChartOrdinalXAxis_def example_world_def)






text \<open>
  C7. \<open>applyChartTimeseriesXAxis\<close> assigns the padded moments to \<open>xDomain[0]\<close> and
  \<open>xDomain[1]\<close> of the array it was given, where \<open>applyChartQuantitativeXAxis\<close> binds a
  new array to its local variable. After the call on the example world, the caller's
  \<open>xDomain\<close> is no longer the first day but the padded domain.
\<close>

theorem timeseries_overwrites_xDomain:
  "xDomain (example_world example_settings_log example_series (0, 86400000) (Fin 1, Fin 10))
     = (0, 86400000)
   \<and> fst (applyChartTimeseriesXAxis example_lib example_day
          (example_world example_settings_log example_series (0, 86400000) (Fin 1, Fin 10)))
     = None
   \<and> xDomain (snd (applyChartTimeseriesXAxis example_lib example_day
          (example_world example_settings_log example_series (0, 86400000) (Fin 1, Fin 10))))
     = (- 64800000, 151200000)"
proof -
  have "\<forall>s \<in> set example_series. cols (data s) \<noteq> []"
    by (simp add: example_series_def)
  then have t: "has_results example_lib (series (example_world example_settings_log
         example_series (0, 86400000) (Fin 1, Fin 10)))"
    "\<forall>s \<in> set (series (example_world example_settings_log example_series
         (0, 86400000) (Fin 1, Fin 10))). cols (data s) \<noteq> []"
    by (simp_all add: example_has_results example_world_def)
  show ?thesis
    using timeseries_success
      [of example_lib
          "example_world example_settings_log example_series (0, 86400000) (Fin 1, Fin 10)"
          example_day] t
    by (auto simp add: example_world_def example_lib_def example_day_def example_ms_def
        example_unit_ms_def)
qed

text \<open>
  The rest of the frame: the series, the x values, the y extent and the settings are the
  same after each of the four functions, and so is \<open>xDomain\<close> after the other three.
\<close>

lemma frame_quantitative:
  "series (snd (applyChartQuantitativeXAxis L xi w)) = series w
   \<and> xValues (snd (applyChartQuantitativeXAxis L xi w)) = xValues w
   \<and> xDomain (snd (applyChartQuantitativeXAxis L xi w)) = xDomain w
   \<and> yExtent (snd (applyChartQuantitativeXAxis L xi w)) = yExtent w
   \<and> settings (chart (snd (applyChartQuantitativeXAxis L xi w))) = settings (chart w)"
  by (simp add: applyChartQuantitativeXAxis_def Let_def split: option.splits)

lemma frame_ordinal:
  "series (snd (applyChartOrdinalXAxis L w)) = series w
   \<and> xValues (snd (applyChartOrdinalXAxis L w)) = xValues w
   \<and> xDomain (snd (applyChartOrdinalXAxis L w)) = xDomain w
   \<and> yExtent (snd (applyChartOrdinalXAxis L w)) = yExtent w
   \<and> settings (chart (snd (applyChartOrdinalXAxis L w))) = settings (chart w)"
  by (simp add: applyChartOrdinalXAxis_def Let_def split: option.splits)

lemma frame_y:
  "series (snd (applyChartYAxis L n w)) = series w
   \<and> xValues (snd (applyChartYAxis L n w)) = xValues w
   \<and> xDomain (snd (applyChartYAxis L n w)) = xDomain w
   \<and> yExtent (snd (applyChartYAxis L n w)) = yExtent w
   \<and> settings (chart (snd (applyChartYAxis L n w))) = settings (chart w)"
  by (simp add: applyChartYAxis_def Let_def)

lemma frame_timeseries:
  "series (snd (applyChartTimeseriesXAxis L ti w)) = series w
   \<and> xValues (snd (applyChartTimeseriesXAxis L ti w)) = xValues w
   \<and> yExtent (snd (applyChartTimeseriesXAxis L ti w)) = yExtent w
   \<and> settings (chart (snd (applyChartTimeseriesXAxis L ti w))) = settings (chart w)"
proof (cases "has_results L (series w) \<and> (\<forall>s \<in> set (series w). cols (data s) \<noteq> [])")
  case True
  then show ?thesis
    using timeseries_success [of L w ti] by auto
next
  case False
  then have "applyChartTimeseriesXAxis L ti w = (Some TypeError, w)"
    using timeseries_no_results [of L w ti] timeseries_no_column [of w L ti] by blast
  then show ?thesis by simp
qed

end
